theory Spec2Isabelle
  imports Complex_Main
begin

section \<open>The martingale engine of Martingel.py\<close>

text \<open>
  Python floats are idealised as exact rationals: rounding, infinities and NaN are not
  part of the engine model.  Every exception the source can raise is a value of
  \<open>error\<close>.  The last two constructors are the exceptions the specification names;
  no path of the source raises them.
\<close>

datatype error =
    NameError
  | IndexError
  | ZeroDivisionError
  | ValueError
  | InsufficientDataError
  | InvalidLayerConfigError

datatype direction = Long | Short

datatype flow = Continue | Break

text \<open>One row of the data frame: the columns the engine reads.\<close>

record bar =
  timestamp :: int
  high :: rat
  low :: rat
  close :: rat
  MA13 :: rat
  MA120 :: rat

text \<open>
  The object \<open>self\<close>.  The columns \<open>open_signal\<close> and \<open>close_signal\<close> that the
  constructor adds to its copy of the frame are kept as two lists beside the rows; the
  frame has the default index, so that the label \<open>i\<close> of \<open>iterrows\<close> is the position
  of the row.  \<open>vol_x\<close> and \<open>vol_y\<close> are the fields \<open>self.x\<close> and \<open>self.y\<close>;
  \<open>direction = None\<close> is Python's \<open>None\<close>.
\<close>

record strategy =
  df :: "bar list"
  leverage_list :: "rat list"
  position_list :: "rat list"
  open_signal :: "int list"
  close_signal :: "int list"
  position :: rat
  entry_price :: rat
  total_loss :: rat
  total_profit :: rat
  current_layer :: nat
  direction :: "direction option"
  vol_x :: rat
  vol_y :: rat

definition and_then :: "error + 'a \<Rightarrow> ('a \<Rightarrow> error + 'b) \<Rightarrow> error + 'b" where
  "and_then m f = (case m of Inl e \<Rightarrow> Inl e | Inr v \<Rightarrow> f v)"

text \<open>
  \<open>__init__\<close>, with the two volatility snapshots (computed by
  \<open>calculate_4h_volatility\<close> and \<open>calculate_1h_volatility\<close> below) passed in.
\<close>

definition init :: "bar list \<Rightarrow> rat list \<Rightarrow> rat list \<Rightarrow> rat \<Rightarrow> rat \<Rightarrow> strategy" where
  "init d levs poss xv yv =
     \<lparr> df = d, leverage_list = levs, position_list = poss,
       open_signal = replicate (length d) 0, close_signal = replicate (length d) 0,
       position = 0, entry_price = 0, total_loss = 0, total_profit = 0,
       current_layer = 0, direction = None, vol_x = xv, vol_y = yv \<rparr>"

text \<open>Indexing a Python list by a layer number.\<close>

definition item :: "'a list \<Rightarrow> nat \<Rightarrow> error + 'a" where
  "item xs n = (if n < length xs then Inr (xs ! n) else Inl IndexError)"

text \<open>\<open>Series.iloc[k]\<close>: a negative \<open>k\<close> counts from the end, out of range raises.\<close>

definition iloc :: "'a list \<Rightarrow> int \<Rightarrow> error + 'a" where
  "iloc xs k =
     (let n = int (length xs); j = (if k < 0 then n + k else k)
      in if 0 \<le> j \<and> j < n then Inr (xs ! nat j) else Inl IndexError)"

text \<open>
  \<open>check_entry_condition\<close>: the statement \<open>return False\<close> of line 35 stands at the
  level of the method body, so it ends every call that gets past line 34; lines 37 to 51
  are never run.  Line 34 reads the name \<open>i\<close>, which is neither a parameter nor a
  global of the module.
\<close>

definition check_entry_condition :: "strategy \<Rightarrow> bar \<Rightarrow> error + bool" where
  "check_entry_condition self row =
     (if vol_x self \<le> 1 / 100 then Inl NameError else Inr False)"

definition calculate_stop_loss :: "strategy \<Rightarrow> nat \<Rightarrow> error + rat" where
  "calculate_stop_loss self layer =
     (let volatility_factor = min ((1 / 2) * vol_x self) (vol_y self)
      in and_then (item (leverage_list self) layer) (\<lambda>l. Inr (volatility_factor * l)))"

definition calculate_take_profit :: "strategy \<Rightarrow> nat \<Rightarrow> error + rat" where
  "calculate_take_profit self layer =
     (if layer = 0 then and_then (item (leverage_list self) layer) (\<lambda>l. Inr (l * (1 / 100)))
      else and_then (item (leverage_list self) layer)
             (\<lambda>l. Inr (min ((1 / 2) * vol_x self) (vol_y self) * l)))"

definition add_position :: "strategy \<Rightarrow> rat \<Rightarrow> nat \<Rightarrow> nat \<Rightarrow> error + strategy" where
  "add_position self price layer index =
     and_then (item (position_list self) layer) (\<lambda>new_position.
       if position self + new_position = 0 then Inl ZeroDivisionError
       else Inr (self\<lparr>
         entry_price := (entry_price self * position self + price * new_position)
                          / (position self + new_position),
         position := position self + new_position,
         current_layer := layer,
         open_signal := (open_signal self)
                          [index := (if direction self = Some Long then 1 else - 1)] \<rparr>))"

definition check_slope_reversal :: "rat list \<Rightarrow> error + bool" where
  "check_slope_reversal ma13_series =
     (if length ma13_series < 6 then Inr False
      else and_then (iloc ma13_series (- 1)) (\<lambda>a.
           and_then (iloc ma13_series (- 6)) (\<lambda>b.
           and_then (iloc ma13_series (- 2)) (\<lambda>c.
           and_then (iloc ma13_series (- 7)) (\<lambda>d.
             Inr ((a - b) * (c - d) < 0))))))"

definition check_take_profit :: "strategy \<Rightarrow> rat \<Rightarrow> error + bool" where
  "check_take_profit self price =
     (if entry_price self = 0 then Inl ZeroDivisionError
      else let profit = (if direction self = Some Long
                         then (price - entry_price self) / entry_price self
                         else (entry_price self - price) / entry_price self)
           in and_then (calculate_take_profit self (current_layer self))
                (\<lambda>target_profit. Inr (profit \<ge> target_profit)))"

definition check_stop_loss :: "strategy \<Rightarrow> rat \<Rightarrow> error + bool" where
  "check_stop_loss self price =
     (if entry_price self = 0 then Inl ZeroDivisionError
      else let loss = (if direction self = Some Long
                       then (entry_price self - price) / entry_price self
                       else (price - entry_price self) / entry_price self)
           in and_then (calculate_stop_loss self (current_layer self))
                (\<lambda>target_loss. Inr (loss \<ge> target_loss \<or> total_loss self \<ge> 1 / 2)))"

text \<open>The window \<open>self.df['MA13'].iloc[max(0, i-5):i+1]\<close> of line 89.\<close>

definition recent_ma13 :: "strategy \<Rightarrow> nat \<Rightarrow> rat list" where
  "recent_ma13 self i =
     drop (nat (max 0 (int i - 5))) (take (i + 1) (map MA13 (df self)))"

text \<open>Lines 98 to 101: the assignments of the take-profit branch.\<close>

definition take_profit_close :: "strategy \<Rightarrow> rat \<Rightarrow> nat \<Rightarrow> strategy" where
  "take_profit_close self price i =
     self\<lparr> close_signal := (close_signal self)[i := 1],
           total_profit := total_profit self + (price - entry_price self),
           position := 0,
           current_layer := 0 \<rparr>"

text \<open>Lines 109 to 111: the assignments of the liquidation branch.\<close>

definition liquidate :: "strategy \<Rightarrow> nat \<Rightarrow> strategy" where
  "liquidate self i =
     self\<lparr> close_signal := (close_signal self)[i := 1],
           position := 0,
           current_layer := 0 \<rparr>"

text \<open>
  Python's \<open>a and b\<close> on two checks: the second one is evaluated only when the first
  returned \<open>True\<close>.
\<close>

definition and_also :: "error + bool \<Rightarrow> error + bool \<Rightarrow> error + bool" where
  "and_also a b = and_then a (\<lambda>v. if v then b else Inr False)"

text \<open>
  Lines 91 to 112: the body of the loop of \<open>run\<close>, for the row \<open>row\<close> with label
  \<open>i\<close> and the window \<open>recent\<close> of line 89.  The result says whether the loop goes
  on (\<open>Continue\<close>: the end of the body or the statement \<open>continue\<close>) or ends
  (\<open>Break\<close>).
\<close>

definition run_body :: "strategy \<Rightarrow> nat \<Rightarrow> bar \<Rightarrow> rat list \<Rightarrow> error + (flow \<times> strategy)" where
  "run_body self i row recent =
     (let price = close row in
      if position self = 0 then
        and_then (check_entry_condition self row) (\<lambda>enter.
          if enter then and_then (add_position self price 0 i) (\<lambda>s. Inr (Continue, s))
          else Inr (Continue, self))
      else
        and_then (and_also (check_take_profit self price) (check_slope_reversal recent))
          (\<lambda>tp.
            if tp then Inr (Continue, take_profit_close self price i)
            else
              and_then (and_also (check_stop_loss self price) (check_slope_reversal recent))
                (\<lambda>sl.
                  if sl then
                    (if int (current_layer self) < int (length (leverage_list self)) - 1
                     then and_then (add_position self price (current_layer self + 1) i)
                            (\<lambda>s. Inr (Continue, s))
                     else Inr (Break, liquidate self i))
                  else Inr (Continue, self))))"

text \<open>The loop \<open>for i, row in self.df.iterrows()\<close> over the rows that are left.\<close>

fun run_loop :: "strategy \<Rightarrow> (nat \<times> bar) list \<Rightarrow> error + strategy" where
  "run_loop self [] = Inr self"
| "run_loop self ((i, row) # rest) =
     (case run_body self i row (recent_ma13 self i) of
        Inl e \<Rightarrow> Inl e
      | Inr (Break, s) \<Rightarrow> Inr s
      | Inr (Continue, s) \<Rightarrow> run_loop s rest)"

definition run :: "strategy \<Rightarrow> error + strategy" where
  "run self = run_loop self (enumerate 0 (df self))"

section \<open>The volatility snapshots of Martingel.py\<close>

text \<open>
  The two snapshots are computed on the data frame by pandas, where a cell can hold NaN
  (an empty resample bucket) and a division by zero gives an infinity or NaN instead of
  raising.  The values of this computation are therefore \<open>fval\<close>: a rational, an
  infinity or NaN.  Timestamps are whole seconds; the bucket of a row for a rule of
  \<open>width\<close> seconds is \<open>timestamp div width\<close> (pandas anchors the buckets of the
  rules \<open>4h\<close> and \<open>1h\<close> at midnight).
\<close>

datatype fval = Fin rat | PosInf | NegInf | NaN

text \<open>\<open>self.df[-24*60:]\<close>: the last 1440 rows, or all of them when there are fewer.\<close>

definition last_24h :: "bar list \<Rightarrow> bar list" where
  "last_24h d = drop (length d - 24 * 60) d"

text \<open>
  \<open>agg({'high': 'max', 'low': 'min'})\<close> on the rows of one bucket; \<open>None\<close> is the
  row of NaN that pandas writes for a bucket without rows.
\<close>

definition agg :: "bar list \<Rightarrow> (rat \<times> rat) option" where
  "agg rows = (if rows = [] then None
               else Some (Max (set (map high rows)), Min (set (map low rows))))"

text \<open>
  \<open>resample(rule, on='timestamp')\<close>: one row for every bucket from the first to the
  last one that holds a row, the empty ones in between included.
\<close>

definition resample :: "int \<Rightarrow> bar list \<Rightarrow> (rat \<times> rat) option list" where
  "resample width rows =
     (if rows = [] then []
      else let ks = map (\<lambda>b. timestamp b div width) rows
           in map (\<lambda>k. agg (filter (\<lambda>b. timestamp b div width = k) rows))
                [Min (set ks) .. Max (set ks)])"

text \<open>\<open>(resampled['high'] - resampled['low']) / resampled['low']\<close> on one row.\<close>

fun range_ratio :: "(rat \<times> rat) option \<Rightarrow> fval" where
  "range_ratio None = NaN"
| "range_ratio (Some (h, l)) =
     (if l \<noteq> 0 then Fin ((h - l) / l)
      else if h - l > 0 then PosInf
      else if h - l < 0 then NegInf
      else NaN)"

text \<open>The comparison \<open>w > m\<close> of two floats: false as soon as one of them is NaN.\<close>

fun fgt :: "fval \<Rightarrow> fval \<Rightarrow> bool" where
  "fgt (Fin a) (Fin b) = (a > b)"
| "fgt PosInf (Fin b) = True"
| "fgt PosInf NegInf = True"
| "fgt (Fin a) NegInf = True"
| "fgt _ _ = False"

text \<open>
  Python's builtin \<open>max\<close> on a sequence: ValueError on the empty one; otherwise it
  starts from the first item and replaces it by each later item that compares greater.
\<close>

fun py_max :: "fval list \<Rightarrow> error + fval" where
  "py_max [] = Inl ValueError"
| "py_max (v # vs) = Inr (fold (\<lambda>w m. if fgt w m then w else m) vs v)"

definition calculate_4h_volatility :: "bar list \<Rightarrow> error + fval" where
  "calculate_4h_volatility d =
     (let resampled = resample (4 * 3600) (last_24h d)
      in py_max (map range_ratio resampled))"

definition calculate_1h_volatility :: "bar list \<Rightarrow> error + fval" where
  "calculate_1h_volatility d =
     (let resampled = resample 3600 (last_24h d)
      in py_max (map range_ratio resampled))"

section \<open>The wave-divergence policy of SBX_strategy.py\<close>

text \<open>
  \<open>ChanAndSmaCombinedStrategy\<close>: the object holds the three window sizes.  A cell of
  a float column is a \<open>rat option\<close>, \<open>None\<close> being the NaN that a rolling mean
  leaves on the first bars.  The frame is modelled by its columns, each a list with one
  entry per bar, until the merge builds the rows.
\<close>

record sma_strategy =
  short_window :: nat
  medium_window :: nat
  long_window :: nat

text \<open>One row of the frame that \<open>generate_signals\<close> returns.\<close>

record signal_row =
  short_ma :: "rat option"
  medium_ma :: "rat option"
  long_ma :: "rat option"
  signal :: int
  diff_5_10 :: "rat option"
  diff_sign :: int
  wave_id :: nat
  wave_strength :: rat
  prev_wave_strength :: "rat option"

text \<open>
  \<open>df["close"].rolling(w).mean()\<close>: NaN until \<open>w\<close> closes are there (and everywhere
  for \<open>w = 0\<close>), then the mean of the last \<open>w\<close> closes.
\<close>

definition rolling_mean :: "nat \<Rightarrow> rat list \<Rightarrow> rat option list" where
  "rolling_mean w xs =
     map (\<lambda>i. if w = 0 \<or> i + 1 < w then None
              else Some (sum_list (take w (drop (i + 1 - w) xs)) / of_nat w))
       [0..<length xs]"

text \<open>Comparisons and the difference of two cells: a comparison with NaN is false.\<close>

definition ogt :: "rat option \<Rightarrow> rat option \<Rightarrow> bool" where
  "ogt a b = (case (a, b) of (Some u, Some v) \<Rightarrow> u > v | _ \<Rightarrow> False)"

definition ole :: "rat option \<Rightarrow> rat option \<Rightarrow> bool" where
  "ole a b = (case (a, b) of (Some u, Some v) \<Rightarrow> u \<le> v | _ \<Rightarrow> False)"

definition osub :: "rat option \<Rightarrow> rat option \<Rightarrow> rat option" where
  "osub a b = (case (a, b) of (Some u, Some v) \<Rightarrow> Some (u - v) | _ \<Rightarrow> None)"

text \<open>Lines 38 to 40: the three assignments to the column \<open>signal\<close>, on one row.\<close>

definition cross_signal :: "rat option \<Rightarrow> rat option \<Rightarrow> int" where
  "cross_signal s l =
     (let signal0 = 0;
          signal1 = (if ogt s l then 1 else signal0)
      in if ole s l then 0 else signal1)"

text \<open>Line 47: \<open>np.where(df["diff_5_10"] > 0, 1, -1)\<close>.\<close>

definition sign_of :: "rat option \<Rightarrow> int" where
  "sign_of d = (if ogt d (Some 0) then 1 else - 1)"

text \<open>\<open>Series.shift(1)\<close>: every value moves one row down, the first row gets NaN.\<close>

definition shift1 :: "'a list \<Rightarrow> 'a option list" where
  "shift1 xs = (if xs = [] then [] else None # map Some (butlast xs))"

definition sign_change_of :: "int \<Rightarrow> int option \<Rightarrow> int option" where
  "sign_change_of s p = map_option (\<lambda>q. s * q) p"

text \<open>Line 51: \<open>df["diff_sign"] * df["diff_sign"].shift(1)\<close>.\<close>

definition sign_change_col :: "int list \<Rightarrow> int option list" where
  "sign_change_col signs = map2 sign_change_of signs (shift1 signs)"

definition negative :: "int option \<Rightarrow> bool" where
  "negative c = (case c of Some v \<Rightarrow> v < 0 | None \<Rightarrow> False)"

fun cumsum :: "nat \<Rightarrow> bool list \<Rightarrow> nat list" where
  "cumsum acc [] = []"
| "cumsum acc (b # bs) = (acc + (if b then 1 else 0)) # cumsum (acc + (if b then 1 else 0)) bs"

text \<open>Line 54: \<open>(df["sign_change"] < 0).cumsum()\<close>.\<close>

definition wave_id_col :: "int option list \<Rightarrow> nat list" where
  "wave_id_col changes = cumsum 0 (map negative changes)"

text \<open>
  Lines 58 to 62: \<open>groupby("wave_id")["diff_5_10"]\<close> and the lambda applied to each
  group.  \<open>x.sum()\<close> skips the NaN of the group, \<open>len(x)\<close> counts every row of it.
  The result is indexed by the wave ids in ascending order.
\<close>

definition group_of :: "nat list \<Rightarrow> 'a list \<Rightarrow> nat \<Rightarrow> 'a list" where
  "group_of ids xs k = map snd (filter (\<lambda>p. fst p = k) (zip ids xs))"

definition nansum :: "rat option list \<Rightarrow> rat" where
  "nansum x = sum_list (map (\<lambda>d. case d of None \<Rightarrow> 0 | Some v \<Rightarrow> v) x)"

definition strength_of :: "rat option list \<Rightarrow> rat" where
  "strength_of x = nansum x / of_nat (max (length x) 1)"

definition wave_strength_table :: "nat list \<Rightarrow> rat option list \<Rightarrow> (nat \<times> rat) list" where
  "wave_strength_table ids deltas =
     map (\<lambda>k. (k, strength_of (group_of ids deltas k))) (sort (remdups ids))"

text \<open>Lines 72 to 76: \<open>condition_weaker\<close> on one row.\<close>

definition weaker :: "signal_row \<Rightarrow> bool" where
  "weaker r = (signal r = 1 \<and> diff_sign r = 1
               \<and> (case prev_wave_strength r of Some p \<Rightarrow> wave_strength r < p | None \<Rightarrow> False))"

text \<open>
  \<open>generate_signals\<close>.  The merge of line 64 is an inner join on the wave id: a row
  without a match in the table would be dropped, and the rows keep their order.  Line 67
  shifts the merged column by one row.
\<close>

definition generate_signals :: "sma_strategy \<Rightarrow> rat list \<Rightarrow> signal_row list" where
  "generate_signals self closes =
     (let shorts = rolling_mean (short_window self) closes;
          mediums = rolling_mean (medium_window self) closes;
          longs = rolling_mean (long_window self) closes;
          signals = map2 cross_signal shorts longs;
          deltas = map2 osub shorts mediums;
          signs = map sign_of deltas;
          changes = sign_change_col signs;
          ids = wave_id_col changes;
          table = wave_strength_table ids deltas;
          merged = List.map_filter
            (\<lambda>i. map_option
               (\<lambda>v. \<lparr> short_ma = shorts ! i, medium_ma = mediums ! i, long_ma = longs ! i,
                      signal = signals ! i, diff_5_10 = deltas ! i, diff_sign = signs ! i,
                      wave_id = ids ! i, wave_strength = v, prev_wave_strength = None \<rparr>)
               (map_of table (ids ! i)))
            [0..<length closes];
          shifted = map2 (\<lambda>r p. r\<lparr> prev_wave_strength := p \<rparr>)
                      merged (shift1 (map wave_strength merged))
      in map (\<lambda>r. if weaker r then r\<lparr> signal := 0 \<rparr> else r) shifted)"

section \<open>Notions of the specification and example data\<close>

text \<open>
  Consecutive calls of \<open>add_position\<close>, each given as (price, layer, index): the adds
  of one open position.
\<close>

fun add_all :: "strategy \<Rightarrow> (rat \<times> nat \<times> nat) list \<Rightarrow> error + strategy" where
  "add_all self [] = Inr self"
| "add_all self ((price, layer, index) # rest) =
     and_then (add_position self price layer index) (\<lambda>s. add_all s rest)"

text \<open>The size that an add puts on, and the size times the price it is put on at.\<close>

definition layer_size :: "strategy \<Rightarrow> rat \<times> nat \<times> nat \<Rightarrow> rat" where
  "layer_size self a = (case a of (price, layer, index) \<Rightarrow> position_list self ! layer)"

definition layer_cost :: "strategy \<Rightarrow> rat \<times> nat \<times> nat \<Rightarrow> rat" where
  "layer_cost self a =
     (case a of (price, layer, index) \<Rightarrow> price * (position_list self ! layer))"

text \<open>
  The specification's value of one bucket, \<open>(max(high) - min(low)) / min(low)\<close>, and
  its maximum over the buckets that hold a row.
\<close>

definition bucket_ratio :: "int \<Rightarrow> bar list \<Rightarrow> int \<Rightarrow> rat" where
  "bucket_ratio width rows k =
     (let b = filter (\<lambda>r. timestamp r div width = k) rows
      in (Max (set (map high b)) - Min (set (map low b))) / Min (set (map low b)))"

definition max_bucket_ratio :: "int \<Rightarrow> bar list \<Rightarrow> rat" where
  "max_bucket_ratio width rows =
     Max (bucket_ratio width rows ` ((\<lambda>b. timestamp b div width) ` set rows))"

text \<open>
  Example data.  Seven one-minute bars: the close stays at 100 and falls to 90 on the
  last bar; the fast average is above the slow one on the first bar, and on the last bar
  \<open>(MA[6] - MA[1]) * (MA[5] - MA[0]) = (0 - 1) * (6 - 5)\<close> is negative.
\<close>

definition quote :: "int \<Rightarrow> rat \<Rightarrow> rat \<Rightarrow> bar" where
  "quote t c m = \<lparr> timestamp = t, high = c, low = c, close = c, MA13 = m, MA120 = 3 \<rparr>"

definition seven_bars :: "bar list" where
  "seven_bars = [quote 0 100 5, quote 60 100 1, quote 120 100 2, quote 180 100 3,
                 quote 240 100 4, quote 300 100 6, quote 360 90 0]"

text \<open>A freshly constructed engine with one layer, \<open>x = 0.02\<close> and \<open>y = 0.01\<close>.\<close>

definition fresh :: strategy where
  "fresh = init seven_bars [1] [1 / 2] (1 / 50) (1 / 100)"

text \<open>The same engine holding a position of 0.5 entered at 100.\<close>

definition held :: "direction \<Rightarrow> strategy" where
  "held d = fresh\<lparr> position := 1 / 2, entry_price := 100, direction := Some d \<rparr>"

text \<open>Engines with two layers: flat, and long 0.5 from 100.\<close>

definition flat_two :: strategy where
  "flat_two = init seven_bars [1, 2] [1 / 2, 1 / 2] (1 / 50) (1 / 100)"

definition two_layers :: strategy where
  "two_layers = flat_two\<lparr> position := 1 / 2, entry_price := 100, direction := Some Long \<rparr>"

text \<open>An engine whose only layer has the size -1.\<close>

definition negative_size :: strategy where
  "negative_size = init seven_bars [1] [- 1] (1 / 50) (1 / 100)"

text \<open>
  Frames for the volatility: a single bar, and three bars that leave the second
  four-hour bucket empty.
\<close>

definition one_bar :: "bar list" where
  "one_bar = [\<lparr> timestamp = 0, high = 101, low = 100, close = 100, MA13 = 0, MA120 = 0 \<rparr>]"

definition gapped_bars :: "bar list" where
  "gapped_bars =
     [\<lparr> timestamp = 0, high = 101, low = 100, close = 100, MA13 = 0, MA120 = 0 \<rparr>,
      \<lparr> timestamp = 60, high = 103, low = 99, close = 100, MA13 = 0, MA120 = 0 \<rparr>,
      \<lparr> timestamp = 30000, high = 100, low = 100, close = 100, MA13 = 0, MA120 = 0 \<rparr>]"

text \<open>
  The columns \<open>diff_5_10\<close> and \<open>wave_id\<close> of \<open>generate_signals\<close> and the strength
  of the wave \<open>k\<close>, as functions of the closes; \<open>row_at\<close> is the row of the result for
  the bar \<open>i\<close>.
\<close>

definition delta_col :: "sma_strategy \<Rightarrow> rat list \<Rightarrow> rat option list" where
  "delta_col self closes =
     map2 osub (rolling_mean (short_window self) closes) (rolling_mean (medium_window self) closes)"

definition id_col :: "sma_strategy \<Rightarrow> rat list \<Rightarrow> nat list" where
  "id_col self closes = wave_id_col (sign_change_col (map sign_of (delta_col self closes)))"

definition strength_col :: "sma_strategy \<Rightarrow> rat list \<Rightarrow> nat \<Rightarrow> rat" where
  "strength_col self closes k =
     strength_of (group_of (id_col self closes) (delta_col self closes) k)"

definition row_at :: "sma_strategy \<Rightarrow> rat list \<Rightarrow> nat \<Rightarrow> signal_row" where
  "row_at self closes i =
     (let r = \<lparr> short_ma = rolling_mean (short_window self) closes ! i,
                  medium_ma = rolling_mean (medium_window self) closes ! i,
                  long_ma = rolling_mean (long_window self) closes ! i,
                  signal = cross_signal (rolling_mean (short_window self) closes ! i)
                             (rolling_mean (long_window self) closes ! i),
                  diff_5_10 = delta_col self closes ! i,
                  diff_sign = sign_of (delta_col self closes ! i),
                  wave_id = id_col self closes ! i,
                  wave_strength = strength_col self closes (id_col self closes ! i),
                  prev_wave_strength =
                    (if i = 0 then None
                     else Some (strength_col self closes (id_col self closes ! (i - 1)))) \<rparr>
      in if weaker r then r\<lparr> signal := 0 \<rparr> else r)"

text \<open>
  The notions of the claim on the rows \<open>rs\<close> of a result: the long signal of the
  cross, the bars of the wave \<open>k\<close>, the sum of the values of \<open>diff_5_10\<close> that are
  defined on them over the number of these bars, the mean of the values that are
  defined, and the divergence of the bar \<open>i\<close>: the sign is positive and the strength of
  its wave is below the strength of the wave before.
\<close>

definition cross :: "signal_row \<Rightarrow> int" where
  "cross r = cross_signal (short_ma r) (long_ma r)"

definition wave_bars :: "signal_row list \<Rightarrow> nat \<Rightarrow> signal_row list" where
  "wave_bars rs k = filter (\<lambda>r. wave_id r = k) rs"

definition wave_average :: "signal_row list \<Rightarrow> nat \<Rightarrow> rat" where
  "wave_average rs k =
     nansum (map diff_5_10 (wave_bars rs k)) / of_nat (length (wave_bars rs k))"

definition wave_mean :: "signal_row list \<Rightarrow> nat \<Rightarrow> rat" where
  "wave_mean rs k =
     (let vs = List.map_filter diff_5_10 (wave_bars rs k)
      in sum_list vs / of_nat (length vs))"

definition divergence :: "signal_row list \<Rightarrow> nat \<Rightarrow> bool" where
  "divergence rs i =
     (diff_sign (rs ! i) = 1 \<and> 0 < wave_id (rs ! i)
      \<and> wave_average rs (wave_id (rs ! i)) < wave_average rs (wave_id (rs ! i) - 1))"

text \<open>Six closes, with the windows 1, 2 and 3.\<close>

definition demo :: "rat list" where
  "demo = [3, 1, 4, 6, 5, 2]"

definition quick :: sma_strategy where
  "quick = \<lparr> short_window = 1, medium_window = 2, long_window = 3 \<rparr>"

section \<open>Properties of the engine\<close>

lemmas engine_defs = run_def run_body_def check_entry_condition_def check_take_profit_def
  check_stop_loss_def calculate_take_profit_def calculate_stop_loss_def check_slope_reversal_def
  add_position_def take_profit_close_def liquidate_def recent_ma13_def and_then_def and_also_def
  item_def iloc_def init_def Let_def

lemmas fixture_defs = quote_def seven_bars_def fresh_def held_def

lemma and_then_Inr_iff:
  "and_then m f = Inr r \<longleftrightarrow> (\<exists>v. m = Inr v \<and> f v = Inr r)"
  by (cases m) (simp_all add: and_then_def)

lemma and_also_Inr:
  "a = Inr u \<Longrightarrow> b = Inr v \<Longrightarrow> and_also a b = Inr (u \<and> v)"
  by (simp add: and_also_def and_then_def)

subsection \<open>The slope check\<close>





text \<open>
  C2.  The claim: on every series of exactly six values, as the window of \<open>run\<close>
  produces, \<open>check_slope_reversal\<close> returns without error.  The source passes the
  guard \<open>len < 6\<close> and then reads \<open>iloc[-7]\<close>: on the six values 1, 2, 3, 4, 5, 6 the
  call raises IndexError.
\<close>

theorem check_slope_reversal_six_values_raises:
  "check_slope_reversal [1, 2, 3, 4, 5, 6] = Inl IndexError"
  by (simp add: check_slope_reversal_def iloc_def Let_def and_then_def)

subsection \<open>Entry\<close>

lemma check_entry_condition_never_true:
  "check_entry_condition self row \<noteq> Inr True"
  by (simp add: check_entry_condition_def)


text \<open>
  C1.  The claim: while the engine is flat, a bar with \<open>x > 0.01\<close> and
  \<open>MA13 > MA120\<close> opens a long layer-0 position at the close.  On the fresh engine
  \<open>x = 0.02\<close>, the engine is flat and the first bar has \<open>MA13 = 5 > 3 = MA120\<close>; the
  run returns the engine as it was: no position, no open signal on any of the seven bars.
\<close>

theorem fresh_run_opens_nothing:
  "1 / 100 < vol_x fresh \<and> position fresh = 0
   \<and> MA120 (seven_bars ! 0) < MA13 (seven_bars ! 0)
   \<and> run fresh = Inr fresh
   \<and> position fresh = 0 \<and> direction fresh = None
   \<and> open_signal fresh = [0, 0, 0, 0, 0, 0, 0]"
  by (simp add: engine_defs fixture_defs upt_rec numeral_eq_Suc)

subsection \<open>What one bar can do\<close>

lemma add_position_fields:
  assumes "add_position self price layer index = Inr s"
  shows "total_loss s = total_loss self" "total_profit s = total_profit self"
    "direction s = direction self" "leverage_list s = leverage_list self"
    "position_list s = position_list self" "df s = df self"
    "vol_x s = vol_x self" "vol_y s = vol_y self" "close_signal s = close_signal self"
    "current_layer s = layer"
  using assms by (auto simp: add_position_def and_then_Inr_iff split: if_splits)

lemma add_position_result:
  assumes "add_position self price layer index = Inr s"
  shows "\<exists>a. item (position_list self) layer = Inr a \<and> position self + a \<noteq> 0
          \<and> position s = position self + a
          \<and> entry_price s = (entry_price self * position self + price * a) / (position self + a)"
  using assms by (auto simp: add_position_def and_then_Inr_iff split: if_splits)

lemma add_position_errors:
  "add_position self price layer index = Inl e \<Longrightarrow> e = IndexError \<or> e = ZeroDivisionError"
  by (auto simp: add_position_def and_then_def item_def split: if_splits)

lemma run_body_cases:
  assumes "run_body self i row recent = Inr (c, s)"
  shows "(c = Continue \<and> s = self)
       \<or> (c = Continue \<and> position self \<noteq> 0 \<and> s = take_profit_close self (close row) i)
       \<or> (c = Continue \<and> position self \<noteq> 0
            \<and> add_position self (close row) (current_layer self + 1) i = Inr s)
       \<or> (c = Break \<and> position self \<noteq> 0 \<and> s = liquidate self i)"
proof (cases "position self = 0")
  case True
  with assms show ?thesis
    by (auto simp: run_body_def check_entry_condition_def and_then_def split: if_splits)
next
  case False
  with assms show ?thesis
    by (auto simp: run_body_def Let_def and_then_Inr_iff split: if_splits)
qed

lemma run_body_total_loss:
  "run_body self i row recent = Inr (c, s) \<Longrightarrow> total_loss s = total_loss self"
  by (drule run_body_cases) (auto simp: take_profit_close_def liquidate_def add_position_fields)

lemma run_body_position_list:
  "run_body self i row recent = Inr (c, s) \<Longrightarrow> position_list s = position_list self"
  by (drule run_body_cases) (auto simp: take_profit_close_def liquidate_def add_position_fields)

lemma run_body_position_nonneg:
  assumes "\<forall>p \<in> set (position_list self). 0 < p" "0 \<le> position self"
    "run_body self i row recent = Inr (c, s)"
  shows "0 \<le> position s"
proof -
  from run_body_cases[OF assms(3)] show ?thesis
  proof (elim disjE conjE)
    assume a: "add_position self (close row) (current_layer self + 1) i = Inr s"
    from add_position_result[OF a] obtain a' where
      "item (position_list self) (current_layer self + 1) = Inr a'"
      "position s = position self + a'"
      by blast
    moreover then have "a' \<in> set (position_list self)"
      by (auto simp: item_def split: if_splits)
    ultimately show ?thesis using assms(1,2) by fastforce
  qed (use assms(2) in \<open>auto simp: take_profit_close_def liquidate_def\<close>)
qed

lemma run_loop_total_loss:
  "run_loop self rows = Inr s \<Longrightarrow> total_loss s = total_loss self"
proof (induction self rows rule: run_loop.induct)
  case (1 self)
  then show ?case by simp
next
  case (2 self i row rest)
  then show ?case
    by (auto split: sum.splits flow.splits dest: run_body_total_loss)
qed

lemma run_loop_position_nonneg:
  "\<forall>p \<in> set (position_list self). 0 < p \<Longrightarrow> 0 \<le> position self
    \<Longrightarrow> run_loop self rows = Inr s \<Longrightarrow> 0 \<le> position s"
proof (induction self rows rule: run_loop.induct)
  case (1 self)
  then show ?case by simp
next
  case (2 self i row rest)
  show ?case
  proof (cases "run_body self i row (recent_ma13 self i)")
    case (Inl e)
    with 2 show ?thesis by simp
  next
    case (Inr r)
    obtain c s' where r: "r = (c, s')" by (cases r)
    have p: "0 \<le> position s'"
      using run_body_position_nonneg[OF "2.prems"(1,2)] Inr r by blast
    have pl: "position_list s' = position_list self"
      using run_body_position_list Inr r by blast
    show ?thesis
    proof (cases c)
      case Continue
      then show ?thesis using 2 Inr r p pl by simp
    next
      case Break
      then show ?thesis using 2 Inr r p by simp
    qed
  qed
qed

lemma fresh_run_loop: "run_loop fresh (enumerate 0 (df fresh)) = Inr fresh"
  by (simp add: engine_defs fixture_defs upt_rec)

lemma two_layers_add:
  "run_body two_layers 6 (seven_bars ! 6) (map MA13 seven_bars)
     = Inr (Continue, two_layers\<lparr> entry_price := 95, position := 1, current_layer := 1,
              open_signal := [0, 0, 0, 0, 0, 0, 1] \<rparr>)"
  by (simp add: engine_defs fixture_defs two_layers_def flat_two_def numeral_eq_Suc)

subsection \<open>Stop loss and liquidation\<close>

text \<open>
  C3.  The claim: the run ends with a liquidation at the first bar where a position is
  open, the slope reversal is confirmed and the stop loss holds at the last layer.  The
  engine holds a long position of 0.5 from 100 on its only layer.  On the bars 0 to 5 the
  close is 100 and no stop loss holds; on bar 6 the close is 90, the loss of 10% is above
  the stop of 1%, and the slope product of the specification is negative.  The run does
  not liquidate there: the window of line 89 holds six values, the slope check reads
  \<open>iloc[-7]\<close>, and the run ends with IndexError.
\<close>

theorem liquidation_bar_raises_index_error:
  "position (held Long) \<noteq> 0
   \<and> check_stop_loss (held Long) (close (seven_bars ! 6)) = Inr True
   \<and> \<not> int (current_layer (held Long)) < int (length (leverage_list (held Long))) - 1
   \<and> (MA13 (seven_bars ! 6) - MA13 (seven_bars ! 1))
       * (MA13 (seven_bars ! 5) - MA13 (seven_bars ! 0)) < 0
   \<and> length (recent_ma13 (held Long) 6) = 6
   \<and> run (held Long) = Inl IndexError"
  by (simp add: engine_defs fixture_defs upt_rec numeral_eq_Suc)

subsection \<open>Take profit\<close>

text \<open>
  C4.  The claim: a take-profit close adds \<open>price - entry_price\<close> signed by the
  direction to \<open>total_profit\<close>, so \<open>entry_price - price\<close> for a short position, and
  sets the close signal of the bar.  The engine is short 0.5 from 100 and the close of
  bar 6 is 90, a gain of 10 for the short.  Inside \<open>run\<close> the six-value window makes
  the slope check raise IndexError, so nothing is realized.  When the body of the loop
  is given the seven fast averages up to the bar, it takes the take-profit branch and
  line 99 adds \<open>price - entry_price = -10\<close>, whatever the direction.
\<close>

theorem short_take_profit_books_unsigned_difference:
  "check_take_profit (held Short) (close (seven_bars ! 6)) = Inr True
   \<and> run (held Short) = Inl IndexError
   \<and> run_body (held Short) 6 (seven_bars ! 6) (map MA13 seven_bars)
       = Inr (Continue, take_profit_close (held Short) 90 6)
   \<and> total_profit (take_profit_close (held Short) 90 6) = - 10
   \<and> entry_price (held Short) - close (seven_bars ! 6) = 10"
  by (simp add: engine_defs fixture_defs upt_rec numeral_eq_Suc)

subsection \<open>What the run leaves unchanged\<close>




subsection \<open>Direction and the flat state\<close>



lemma closing_bar_is_flat_in_full:
  assumes "direction self = None" "position self \<noteq> 0"
    "run_body self i row recent = Inr (c, s)" "position s = 0"
  shows "current_layer s = 0 \<and> direction s = None"
proof -
  from run_body_cases[OF assms(3)] show ?thesis
  proof (elim disjE conjE)
    assume a: "add_position self (close row) (current_layer self + 1) i = Inr s"
    from add_position_result[OF a] assms(4) show ?thesis by auto
  qed (use assms in \<open>auto simp: take_profit_close_def liquidate_def\<close>)
qed





subsection \<open>The average entry price\<close>

lemma add_all_invariant:
  "add_all self adds = Inr s \<Longrightarrow>
     position s = position self + sum_list (map (layer_size self) adds)
     \<and> entry_price s * position s
         = entry_price self * position self + sum_list (map (layer_cost self) adds)
     \<and> (adds \<noteq> [] \<longrightarrow> position s \<noteq> 0)"
proof (induction adds arbitrary: self)
  case Nil
  then show ?case by simp
next
  case (Cons a adds)
  obtain price layer index where a: "a = (price, layer, index)" by (cases a)
  from Cons.prems a obtain s1 where
    s1: "add_position self price layer index = Inr s1" and rest: "add_all s1 adds = Inr s"
    by (auto simp: and_then_Inr_iff)
  from add_position_result[OF s1] obtain sz where
    sz: "item (position_list self) layer = Inr sz" "position self + sz \<noteq> 0"
      "position s1 = position self + sz"
      "entry_price s1 = (entry_price self * position self + price * sz) / (position self + sz)"
    by blast
  have szv: "sz = position_list self ! layer" using sz(1) by (auto simp: item_def split: if_splits)
  have pl: "position_list s1 = position_list self" using s1 by (rule add_position_fields)
  have same: "layer_size s1 = layer_size self" "layer_cost s1 = layer_cost self"
    by (simp_all add: layer_size_def layer_cost_def pl fun_eq_iff)
  have e1: "entry_price s1 * position s1 = entry_price self * position self + price * sz"
    using sz(2,3,4) by simp
  note IH = Cons.IH[OF rest, unfolded same]
  have ih: "position s = position s1 + sum_list (map (layer_size self) adds)"
    "entry_price s * position s = entry_price s1 * position s1 + sum_list (map (layer_cost self) adds)"
    "adds \<noteq> [] \<longrightarrow> position s \<noteq> 0"
    using IH by blast+
  have nz: "position s \<noteq> 0"
  proof (cases adds)
    case Nil
    with rest sz show ?thesis by simp
  next
    case (Cons b bs)
    with ih(3) show ?thesis by simp
  qed
  have ls: "layer_size self a = sz" using a szv by (simp add: layer_size_def)
  have lc: "layer_cost self a = price * sz" using a szv by (simp add: layer_cost_def)
  have c1: "position s = position self + sum_list (map (layer_size self) (a # adds))"
    using ih(1) sz(3) ls by simp
  have c2: "entry_price s * position s
      = entry_price self * position self + sum_list (map (layer_cost self) (a # adds))"
    using ih(2) e1 lc by simp
  show ?case using c1 c2 nz by blast
qed

lemma add_all_average:
  assumes "position self = 0" "adds \<noteq> []" "add_all self adds = Inr s"
  shows "sum_list (map (layer_size self) adds) \<noteq> 0
       \<and> entry_price s = sum_list (map (layer_cost self) adds) / sum_list (map (layer_size self) adds)"
proof -
  note inv = add_all_invariant[OF assms(3)]
  have "position s = position self + sum_list (map (layer_size self) adds)"
    using inv by blast
  then have p: "position s = sum_list (map (layer_size self) adds)"
    using assms(1) by simp
  have "entry_price s * position s
      = entry_price self * position self + sum_list (map (layer_cost self) adds)"
    using inv by blast
  then have e: "entry_price s * position s = sum_list (map (layer_cost self) adds)"
    using assms(1) by simp
  have nz: "position s \<noteq> 0" using inv assms(2) by blast
  from e nz have "entry_price s = sum_list (map (layer_cost self) adds) / position s"
    by (simp add: field_simps)
  with p nz show ?thesis by simp
qed

lemma flat_two_add:
  "add_position flat_two 100 0 0
     = Inr (flat_two\<lparr> entry_price := 100, position := 1 / 2, current_layer := 0,
              open_signal := [- 1, 0, 0, 0, 0, 0, 0] \<rparr>)"
  by (simp add: engine_defs fixture_defs flat_two_def numeral_eq_Suc)

lemma flat_two_adds:
  "add_all flat_two [(100, 0, 0), (90, 1, 6)]
     = Inr (flat_two\<lparr> entry_price := 95, position := 1, current_layer := 1,
              open_signal := [- 1, 0, 0, 0, 0, 0, - 1] \<rparr>)"
  by (simp add: engine_defs fixture_defs flat_two_def numeral_eq_Suc)

text \<open>
  C8, as the claim states it: the averaging fails with InvalidLayerConfigError when an
  entry of \<open>position_list\<close> is not positive.  With the single size -1 the add from the
  flat state returns: the position becomes -1 and the entry price 100.
\<close>

theorem add_position_accepts_negative_size:
  "(\<exists>k < length (position_list negative_size). position_list negative_size ! k \<le> 0)
   \<and> add_position negative_size 100 0 0
       = Inr (negative_size\<lparr> entry_price := 100, position := - 1, current_layer := 0,
                open_signal := [- 1, 0, 0, 0, 0, 0, 0] \<rparr>)
   \<and> add_position negative_size 100 0 0 \<noteq> Inl InvalidLayerConfigError"
  by (simp add: engine_defs fixture_defs negative_size_def numeral_eq_Suc)

text \<open>
  C8, amended: every add that returns, of the size \<open>a\<close> at the price \<open>p\<close> onto the
  position \<open>q\<close> with the entry price \<open>e\<close>, has \<open>q + a \<noteq> 0\<close> and leaves the entry
  price \<open>(e * q + p * a) / (q + a)\<close>; after consecutive adds from a flat position the
  entry price is the sum of price times size over the sum of the sizes, the
  position-weighted average of the layer prices.  No add ever raises
  InvalidLayerConfigError: the sizes are not validated.
\<close>

theorem add_position_weighted_average:
  "(add_position self price layer index = Inr s \<longrightarrow>
      (\<exists>a. item (position_list self) layer = Inr a \<and> position self + a \<noteq> 0
         \<and> position s = position self + a
         \<and> entry_price s = (entry_price self * position self + price * a) / (position self + a)))
   \<and> (position self = 0 \<and> adds \<noteq> [] \<and> add_all self adds = Inr s' \<longrightarrow>
        sum_list (map (layer_size self) adds) \<noteq> 0
        \<and> entry_price s' = sum_list (map (layer_cost self) adds)
                              / sum_list (map (layer_size self) adds))
   \<and> add_position self price layer index \<noteq> Inl InvalidLayerConfigError"
  using add_position_result[of self price layer index s] add_all_average[of self adds s']
    add_position_errors[of self price layer index InvalidLayerConfigError]
  by blast

text \<open>
  Two layers of 0.5: the entry at 100 and the add at 90 give the average 95.
\<close>

theorem add_position_weighted_average_witness:
  "add_position flat_two 100 0 0
     = Inr (flat_two\<lparr> entry_price := 100, position := 1 / 2, current_layer := 0,
              open_signal := [- 1, 0, 0, 0, 0, 0, 0] \<rparr>)
   \<and> position flat_two = 0
   \<and> add_all flat_two [(100, 0, 0), (90, 1, 6)]
       = Inr (flat_two\<lparr> entry_price := 95, position := 1, current_layer := 1,
                open_signal := [- 1, 0, 0, 0, 0, 0, - 1] \<rparr>)
   \<and> sum_list (map (layer_size flat_two) [(100, 0, 0), (90, 1, 6)]) = 1
   \<and> sum_list (map (layer_cost flat_two) [(100, 0, 0), (90, 1, 6)]) = 95
   \<and> entry_price (flat_two\<lparr> entry_price := 95, position := 1, current_layer := 1,
                open_signal := [- 1, 0, 0, 0, 0, 0, - 1] \<rparr>)
       = sum_list (map (layer_cost flat_two) [(100, 0, 0), (90, 1, 6)])
           / sum_list (map (layer_size flat_two) [(100, 0, 0), (90, 1, 6)])"
proof -
  have p: "position flat_two = 0" by (simp add: flat_two_def init_def)
  have sz: "sum_list (map (layer_size flat_two) [(100, 0, 0), (90, 1, 6)]) = 1"
    by (simp add: layer_size_def flat_two_def init_def)
  have co: "sum_list (map (layer_cost flat_two) [(100, 0, 0), (90, 1, 6)]) = 95"
    by (simp add: layer_cost_def flat_two_def init_def)
  from add_position_weighted_average[of flat_two 100 0 0 _ "[(100, 0, 0), (90, 1, 6)]"]
    flat_two_add flat_two_adds p sz co
  show ?thesis by simp
qed

subsection \<open>Invariants of the run\<close>

text \<open>
  C9.  With every entry of \<open>position_list\<close> positive and a position that is not
  negative (it is 0 after \<open>__init__\<close>), the position is not negative after the body
  of the loop has processed a bar, whatever the window of fast averages, and after the
  loop has processed any sequence of bars.
\<close>

theorem position_never_negative:
  assumes "\<forall>p \<in> set (position_list self). 0 < p" and "0 \<le> position self"
  shows "(run_body self i row recent = Inr (c, s) \<longrightarrow> 0 \<le> position s)
       \<and> (run_loop self rows = Inr s' \<longrightarrow> 0 \<le> position s')"
  using run_body_position_nonneg[OF assms, of i row recent c s]
    run_loop_position_nonneg[OF assms, of rows s'] by blast

text \<open>
  A martingale add on bar 6 takes the position from 0.5 to 1, and the run of the fresh
  engine leaves it at 0.
\<close>

theorem position_never_negative_witness:
  "list_all (\<lambda>p. 0 < p) (position_list two_layers) \<and> 0 \<le> position two_layers
   \<and> run_body two_layers 6 (seven_bars ! 6) (map MA13 seven_bars)
       = Inr (Continue, two_layers\<lparr> entry_price := 95, position := 1, current_layer := 1,
              open_signal := [0, 0, 0, 0, 0, 0, 1] \<rparr>)
   \<and> 0 \<le> position (two_layers\<lparr> entry_price := 95, position := 1, current_layer := 1,
              open_signal := [0, 0, 0, 0, 0, 0, 1] \<rparr>)
   \<and> run_loop fresh (enumerate 0 (df fresh)) = Inr fresh \<and> 0 \<le> position fresh"
proof -
  have h1: "\<forall>p \<in> set (position_list two_layers). 0 < p"
    by (simp add: two_layers_def flat_two_def init_def)
  have h2: "0 \<le> position two_layers" by (simp add: two_layers_def)
  have g1: "\<forall>p \<in> set (position_list fresh). 0 < p" by (simp add: fresh_def init_def)
  have g2: "0 \<le> position fresh" by (simp add: fresh_def init_def)
  from position_never_negative[OF h1 h2]
    position_never_negative[OF g1 g2, of _ _ _ _ _ "enumerate 0 (df fresh)" fresh]
    two_layers_add h1 h2 fresh_run_loop
  show ?thesis by (simp add: list_all_iff)
qed

text \<open>
  C10.  \<open>total_loss\<close> is 0 after \<open>__init__\<close> and no bar changes it: from a state
  with \<open>total_loss = 0\<close> it is 0 after the body of the loop has processed a bar,
  whatever the window, and after the loop has processed any sequence of bars, so that
  the comparison \<open>total_loss \<ge> 0.5\<close> of \<open>check_stop_loss\<close> is false.
\<close>

theorem total_loss_stays_zero:
  assumes "total_loss self = 0"
  shows "(run_body self i row recent = Inr (c, s) \<longrightarrow> total_loss s = 0)
       \<and> (run_loop self rows = Inr s' \<longrightarrow> total_loss s' = 0 \<and> \<not> 1 / 2 \<le> total_loss s')
       \<and> total_loss (init d levs poss xv yv) = 0"
  using assms run_body_total_loss[of self i row recent c s] run_loop_total_loss[of self rows s']
  by (auto simp: init_def)

text \<open>
  The martingale add of the two-layer engine is a bar that changes the state, and the run
  of the fresh engine a whole loop.
\<close>

theorem total_loss_stays_zero_witness:
  "total_loss two_layers = 0
   \<and> run_body two_layers 6 (seven_bars ! 6) (map MA13 seven_bars)
       = Inr (Continue, two_layers\<lparr> entry_price := 95, position := 1, current_layer := 1,
              open_signal := [0, 0, 0, 0, 0, 0, 1] \<rparr>)
   \<and> total_loss (two_layers\<lparr> entry_price := 95, position := 1, current_layer := 1,
              open_signal := [0, 0, 0, 0, 0, 0, 1] \<rparr>) = 0
   \<and> total_loss fresh = 0
   \<and> run_loop fresh (enumerate 0 (df fresh)) = Inr fresh
   \<and> \<not> 1 / 2 \<le> total_loss fresh"
proof -
  have h: "total_loss two_layers = 0" by (simp add: two_layers_def flat_two_def init_def)
  have g: "total_loss fresh = 0" by (simp add: fresh_def init_def)
  from total_loss_stays_zero[OF h] total_loss_stays_zero[OF g, of _ _ _ _ _ "enumerate 0 (df fresh)" fresh]
    two_layers_add h g fresh_run_loop
  show ?thesis by simp
qed

section \<open>Properties of the volatility snapshots\<close>

lemmas vol_defs = calculate_4h_volatility_def calculate_1h_volatility_def resample_def agg_def
  last_24h_def Let_def

lemma fin_values_finite: "finite {a. Fin a \<in> set vs}"
proof -
  have "{a. Fin a \<in> set vs} \<subseteq> (\<lambda>v. case v of Fin a \<Rightarrow> a | _ \<Rightarrow> 0) ` set vs"
    by (auto simp: image_iff intro!: bexI[of _ "Fin _"])
  then show ?thesis by (rule finite_subset) simp
qed

lemma fold_max_fin:
  assumes "\<forall>v \<in> set vs. v = NaN \<or> (\<exists>a. v = Fin a)"
  shows "fold (\<lambda>w m. if fgt w m then w else m) vs (Fin m)
           = Fin (Max (insert m {a. Fin a \<in> set vs}))"
  using assms
proof (induction vs arbitrary: m)
  case Nil
  then show ?case by simp
next
  case (Cons v vs)
  let ?A = "{a. Fin a \<in> set vs}"
  have fin: "finite ?A" by (rule fin_values_finite)
  have rest: "\<forall>v \<in> set vs. v = NaN \<or> (\<exists>a. v = Fin a)" using Cons.prems by simp
  from Cons.prems have "v = NaN \<or> (\<exists>a. v = Fin a)" by simp
  then show ?case
  proof
    assume v: "v = NaN"
    then have "{a. Fin a \<in> set (v # vs)} = ?A" by auto
    then show ?thesis using Cons.IH[OF rest, of m] v by simp
  next
    assume "\<exists>a. v = Fin a"
    then obtain a where v: "v = Fin a" by blast
    have s: "{b. Fin b \<in> set (v # vs)} = insert a ?A" using v by auto
    show ?thesis
    proof (cases "a > m")
      case True
      have "a \<le> Max (insert a ?A)" using fin by simp
      then have "max m (Max (insert a ?A)) = Max (insert a ?A)" using True by (simp add: max_def)
      moreover have "Max (insert m (insert a ?A)) = max m (Max (insert a ?A))"
        using fin by (intro Max_insert) simp_all
      ultimately have "Max (insert m (insert a ?A)) = Max (insert a ?A)" by simp
      then show ?thesis using Cons.IH[OF rest, of a] v True s by simp
    next
      case False
      have "Max (insert m (insert a ?A)) = Max (insert m ?A)"
      proof (cases "?A = {}")
        case True
        then show ?thesis using False by (simp add: max_def)
      next
        case ne: False
        have "max m (max a (Max ?A)) = max m (Max ?A)" using False by (simp add: max_def)
        then show ?thesis using fin ne by simp
      qed
      then show ?thesis using Cons.IH[OF rest, of m] v False s by simp
    qed
  qed
qed

lemma bucket_nonneg:
  assumes valid: "\<forall>b \<in> set rows. 0 < low b \<and> low b \<le> high b"
    and k: "k \<in> (\<lambda>b. timestamp b div width) ` set rows"
  shows "filter (\<lambda>r. timestamp r div width = k) rows \<noteq> []"
    and "0 < Min (set (map low (filter (\<lambda>r. timestamp r div width = k) rows)))"
    and "0 \<le> bucket_ratio width rows k"
proof -
  let ?b = "filter (\<lambda>r. timestamp r div width = k) rows"
  from k obtain r where r: "r \<in> set rows" "timestamp r div width = k" by auto
  then have rb: "r \<in> set ?b" by simp
  show ne: "?b \<noteq> []"
  proof
    assume e: "?b = []"
    from rb show False unfolding e by simp
  qed
  have lows: "\<forall>l \<in> set (map low ?b). 0 < l" using valid by auto
  have nel: "set (map low ?b) \<noteq> {}" using rb by auto
  have "Min (set (map low ?b)) \<in> set (map low ?b)" using nel by (intro Min_in) simp_all
  then show pos: "0 < Min (set (map low ?b))" using lows by blast
  have "Min (set (map low ?b)) \<le> low r" using rb by (intro Min_le) auto
  also have "\<dots> \<le> high r" using valid r(1) by simp
  also have "\<dots> \<le> Max (set (map high ?b))" using rb by (intro Max_ge) auto
  finally have "Min (set (map low ?b)) \<le> Max (set (map high ?b))" .
  then show "0 \<le> bucket_ratio width rows k"
    using pos by (simp add: bucket_ratio_def Let_def)
qed

lemma bucket_value:
  assumes valid: "\<forall>b \<in> set rows. 0 < low b \<and> low b \<le> high b"
  shows "range_ratio (agg (filter (\<lambda>r. timestamp r div width = k) rows))
          = (if k \<in> (\<lambda>b. timestamp b div width) ` set rows
             then Fin (bucket_ratio width rows k) else NaN)"
proof (cases "k \<in> (\<lambda>b. timestamp b div width) ` set rows")
  case True
  from bucket_nonneg(1,2)[OF valid True] show ?thesis
    using True by (simp add: agg_def bucket_ratio_def Let_def)
next
  case False
  then have "filter (\<lambda>r. timestamp r div width = k) rows = []"
    by (auto simp: filter_empty_conv)
  then show ?thesis using False by (simp add: agg_def)
qed

lemma resample_max:
  assumes ne: "rows \<noteq> []" and valid: "\<forall>b \<in> set rows. 0 < low b \<and> low b \<le> high b"
  shows "py_max (map range_ratio (resample width rows)) = Inr (Fin (max_bucket_ratio width rows))"
    and "0 \<le> max_bucket_ratio width rows"
proof -
  let ?K = "(\<lambda>b. timestamp b div width) ` set rows"
  let ?g = "\<lambda>k. if k \<in> ?K then Fin (bucket_ratio width rows k) else NaN"
  let ?br = "bucket_ratio width rows"
  have finK: "finite ?K" and neK: "?K \<noteq> {}" using ne by simp_all
  let ?k0 = "Min ?K" and ?k1 = "Max ?K"
  have k0: "?k0 \<in> ?K" using finK neK by (rule Min_in)
  have le: "?k0 \<le> ?k1" using finK neK by (meson Max_in Min_le)
  have sub: "?K \<subseteq> {?k0..?k1}" using finK by auto
  have R: "map range_ratio (resample width rows) = map ?g [?k0..?k1]"
    using ne bucket_value[OF valid, of width] by (simp add: resample_def Let_def)
  have up: "[?k0..?k1] = ?k0 # [?k0 + 1..?k1]" using le by (simp add: upto_rec1)
  have nanfin: "\<forall>v \<in> set (map ?g [?k0 + 1..?k1]). v = NaN \<or> (\<exists>a. v = Fin a)" by auto
  have vals: "insert (?br ?k0) {a. Fin a \<in> set (map ?g [?k0 + 1..?k1])} = ?br ` ?K"
  proof (intro equalityI subsetI)
    fix a assume "a \<in> insert (?br ?k0) {a. Fin a \<in> set (map ?g [?k0 + 1..?k1])}"
    then show "a \<in> ?br ` ?K" using k0 by (auto split: if_splits)
  next
    fix a assume "a \<in> ?br ` ?K"
    then obtain k where k: "k \<in> ?K" "a = ?br k" by blast
    show "a \<in> insert (?br ?k0) {a. Fin a \<in> set (map ?g [?k0 + 1..?k1])}"
    proof (cases "k = ?k0")
      case True
      then show ?thesis using k by simp
    next
      case False
      have "?k0 \<le> k" using finK k(1) by (rule Min_le)
      moreover have "k \<le> ?k1" using finK k(1) by (rule Max_ge)
      ultimately have km: "k \<in> set [?k0 + 1..?k1]" using False by simp
      have gk: "?g k = Fin a" using k by simp
      have "?g k \<in> ?g ` set [?k0 + 1..?k1]" using km by (rule imageI)
      then have "Fin a \<in> set (map ?g [?k0 + 1..?k1])" unfolding gk by (simp only: set_map)
      then show ?thesis by blast
    qed
  qed
  have "py_max (map ?g [?k0..?k1])
          = Inr (fold (\<lambda>w m. if fgt w m then w else m) (map ?g [?k0 + 1..?k1]) (Fin (?br ?k0)))"
    using up k0 by simp
  also have "\<dots> = Inr (Fin (Max (insert (?br ?k0) {a. Fin a \<in> set (map ?g [?k0 + 1..?k1])})))"
    using fold_max_fin[OF nanfin] by simp
  finally show "py_max (map range_ratio (resample width rows)) = Inr (Fin (max_bucket_ratio width rows))"
    using R vals by (simp add: max_bucket_ratio_def)
  have "Max (?br ` ?K) \<in> ?br ` ?K" using finK neK by (intro Max_in) simp_all
  then show "0 \<le> max_bucket_ratio width rows"
    using bucket_nonneg(3)[OF valid] by (auto simp: max_bucket_ratio_def)
qed

lemma last_24h_nonempty: "d \<noteq> [] \<Longrightarrow> last_24h d \<noteq> []"
  by (cases d) (simp_all add: last_24h_def)

lemma last_24h_subset: "set (last_24h d) \<subseteq> set d"
  by (auto simp: last_24h_def dest: in_set_dropD)

lemma py_max_errors: "py_max vs = Inl e \<Longrightarrow> e = ValueError"
  by (cases vs) auto

lemma gapped_4h: "calculate_4h_volatility gapped_bars = Inr (Fin (4 / 99))"
  by (simp add: vol_defs gapped_bars_def upto_rec1)

lemma gapped_1h: "calculate_1h_volatility gapped_bars = Inr (Fin (4 / 99))"
  by (simp add: vol_defs gapped_bars_def upto_rec1)

text \<open>
  C7, as the claim states it: with fewer bars than one full bucket the computation
  raises InsufficientDataError.  A frame of a single bar, far from the 60 one-minute bars
  of an hour, gives the value 0.01 for both snapshots.
\<close>

theorem volatility_of_one_bar_is_returned:
  "length one_bar < 60
   \<and> calculate_4h_volatility one_bar = Inr (Fin (1 / 100))
   \<and> calculate_1h_volatility one_bar = Inr (Fin (1 / 100))
   \<and> calculate_4h_volatility one_bar \<noteq> Inl InsufficientDataError"
  by (simp add: vol_defs one_bar_def)

text \<open>
  C7, amended: on a frame that is not empty and whose bars have \<open>0 < low \<le> high\<close>,
  however few they are, each snapshot is the maximum over the buckets that hold a bar of
  \<open>(max(high) - min(low)) / min(low)\<close>, a value that is not negative; the empty buckets
  in between are left out of the maximum.  On the empty frame \<open>max\<close> raises ValueError.
  InsufficientDataError is never raised.
\<close>

theorem volatility_is_max_bucket_ratio:
  "(d \<noteq> [] \<and> (\<forall>b \<in> set d. 0 < low b \<and> low b \<le> high b) \<longrightarrow>
      calculate_4h_volatility d = Inr (Fin (max_bucket_ratio (4 * 3600) (last_24h d)))
      \<and> 0 \<le> max_bucket_ratio (4 * 3600) (last_24h d)
      \<and> calculate_1h_volatility d = Inr (Fin (max_bucket_ratio 3600 (last_24h d)))
      \<and> 0 \<le> max_bucket_ratio 3600 (last_24h d))
   \<and> (d = [] \<longrightarrow> calculate_4h_volatility d = Inl ValueError
                  \<and> calculate_1h_volatility d = Inl ValueError)
   \<and> calculate_4h_volatility d \<noteq> Inl InsufficientDataError
   \<and> calculate_1h_volatility d \<noteq> Inl InsufficientDataError"
proof (intro conjI impI)
  assume a: "d \<noteq> [] \<and> (\<forall>b \<in> set d. 0 < low b \<and> low b \<le> high b)"
  then have ne: "last_24h d \<noteq> []" and valid: "\<forall>b \<in> set (last_24h d). 0 < low b \<and> low b \<le> high b"
    using last_24h_nonempty[of d] last_24h_subset[of d] by auto
  show "calculate_4h_volatility d = Inr (Fin (max_bucket_ratio (4 * 3600) (last_24h d)))"
    using resample_max(1)[OF ne valid, of "4 * 3600"] by (simp add: calculate_4h_volatility_def)
  show "0 \<le> max_bucket_ratio (4 * 3600) (last_24h d)" using resample_max(2)[OF ne valid] .
  show "calculate_1h_volatility d = Inr (Fin (max_bucket_ratio 3600 (last_24h d)))"
    using resample_max(1)[OF ne valid, of 3600] by (simp add: calculate_1h_volatility_def)
  show "0 \<le> max_bucket_ratio 3600 (last_24h d)" using resample_max(2)[OF ne valid] .
next
  assume "d = []"
  then show "calculate_4h_volatility d = Inl ValueError" by (simp add: vol_defs)
next
  assume "d = []"
  then show "calculate_1h_volatility d = Inl ValueError" by (simp add: vol_defs)
next
  show "calculate_4h_volatility d \<noteq> Inl InsufficientDataError"
    using py_max_errors[of _ InsufficientDataError] by (auto simp: calculate_4h_volatility_def Let_def)
  show "calculate_1h_volatility d \<noteq> Inl InsufficientDataError"
    using py_max_errors[of _ InsufficientDataError] by (auto simp: calculate_1h_volatility_def Let_def)
qed

text \<open>
  Three bars in the four-hour buckets 0 and 2: the bucket between them is empty, and the
  maximum is the 4/99 of the first bucket.
\<close>

theorem volatility_is_max_bucket_ratio_witness:
  "gapped_bars \<noteq> [] \<and> list_all (\<lambda>b. 0 < low b \<and> low b \<le> high b) gapped_bars
   \<and> resample (4 * 3600) (last_24h gapped_bars) = [Some (103, 99), None, Some (100, 100)]
   \<and> calculate_4h_volatility gapped_bars = Inr (Fin (4 / 99))
   \<and> max_bucket_ratio (4 * 3600) (last_24h gapped_bars) = 4 / 99
   \<and> calculate_1h_volatility gapped_bars = Inr (Fin (4 / 99))
   \<and> max_bucket_ratio 3600 (last_24h gapped_bars) = 4 / 99
   \<and> calculate_4h_volatility [] = Inl ValueError"
proof -
  have h1: "gapped_bars \<noteq> []" by (simp add: gapped_bars_def)
  have h2: "\<forall>b \<in> set gapped_bars. 0 < low b \<and> low b \<le> high b" by (simp add: gapped_bars_def)
  have r: "resample (4 * 3600) (last_24h gapped_bars) = [Some (103, 99), None, Some (100, 100)]"
    by (simp add: vol_defs gapped_bars_def upto_rec1)
  have h3: "list_all (\<lambda>b. 0 < low b \<and> low b \<le> high b) gapped_bars"
    by (simp add: gapped_bars_def)
  from volatility_is_max_bucket_ratio[of gapped_bars] volatility_is_max_bucket_ratio[of "[]"]
    h1 h2 h3 r gapped_4h gapped_1h
  show ?thesis by simp
qed

section \<open>Properties of the wave-divergence policy\<close>

subsection \<open>The wave ids\<close>

lemma cumsum_length [simp]: "length (cumsum a bs) = length bs"
  by (induction bs arbitrary: a) simp_all

lemma cumsum_nth_0: "bs \<noteq> [] \<Longrightarrow> cumsum a bs ! 0 = a + (if bs ! 0 then 1 else 0)"
  by (cases bs) simp_all

lemma cumsum_nth_Suc:
  "Suc i < length bs \<Longrightarrow> cumsum a bs ! Suc i = cumsum a bs ! i + (if bs ! Suc i then 1 else 0)"
proof (induction bs arbitrary: a i)
  case Nil
  then show ?case by simp
next
  case (Cons b bs)
  show ?case
  proof (cases i)
    case 0
    with Cons.prems show ?thesis by (cases bs) simp_all
  next
    case (Suc j)
    with Cons.prems have "Suc j < length bs" by simp
    from Cons.IH[OF this] Suc show ?thesis by simp
  qed
qed

lemma shift1_length [simp]: "length (shift1 xs) = length xs"
  by (cases xs) (simp_all add: shift1_def)

lemma shift1_nth:
  "i < length xs \<Longrightarrow> shift1 xs ! i = (if i = 0 then None else Some (xs ! (i - 1)))"
  by (cases i) (auto simp: shift1_def nth_butlast)

lemma sign_change_col_length [simp]: "length (sign_change_col signs) = length signs"
  by (simp add: sign_change_col_def)

lemma wave_id_col_length [simp]: "length (wave_id_col changes) = length changes"
  by (simp add: wave_id_col_def)

lemma sign_change_col_nth:
  "i < length signs \<Longrightarrow>
     sign_change_col signs ! i = (if i = 0 then None else Some (signs ! i * signs ! (i - 1)))"
  by (simp add: sign_change_col_def shift1_nth sign_change_of_def)

lemma wave_id_first:
  assumes "signs \<noteq> []"
  shows "wave_id_col (sign_change_col signs) ! 0 = 0"
proof -
  let ?bs = "map negative (sign_change_col signs)"
  have "length ?bs = length signs" by simp
  then have ne: "?bs \<noteq> []" using assms by (metis length_0_conv)
  have pos: "0 < length signs" using assms by simp
  have "?bs ! 0 = negative (sign_change_col signs ! 0)" using pos by simp
  also have "\<dots> = False" using pos by (simp add: sign_change_col_nth negative_def)
  finally have "\<not> ?bs ! 0" by simp
  then show ?thesis using cumsum_nth_0[OF ne, of 0] by (simp add: wave_id_col_def)
qed

lemma wave_id_next:
  assumes "Suc i < length signs"
  shows "wave_id_col (sign_change_col signs) ! Suc i
           = wave_id_col (sign_change_col signs) ! i
             + (if signs ! Suc i * signs ! i < 0 then 1 else 0)"
proof -
  let ?bs = "map negative (sign_change_col signs)"
  have l: "Suc i < length ?bs" using assms by simp
  have "?bs ! Suc i = negative (sign_change_col signs ! Suc i)" using assms by simp
  also have "\<dots> = (signs ! Suc i * signs ! i < 0)"
    using assms by (simp add: sign_change_col_nth negative_def)
  finally have "?bs ! Suc i = (signs ! Suc i * signs ! i < 0)" .
  then show ?thesis using cumsum_nth_Suc[OF l, of 0] by (simp add: wave_id_col_def)
qed

lemma sign_of_cases: "sign_of d = 1 \<or> sign_of d = - 1"
  by (simp add: sign_of_def)

lemma sign_flip:
  "s = 1 \<or> s = - 1 \<Longrightarrow> t = 1 \<or> t = - 1 \<Longrightarrow> (s * t < 0) = (s \<noteq> t)" for s t :: int
  by auto

lemma wave_id_mono:
  "i \<le> j \<Longrightarrow> j < length signs
    \<Longrightarrow> wave_id_col (sign_change_col signs) ! i \<le> wave_id_col (sign_change_col signs) ! j"
proof (induction j)
  case 0
  then show ?case by simp
next
  case (Suc j)
  show ?case
  proof (cases "i = Suc j")
    case True
    then show ?thesis by simp
  next
    case False
    with Suc.prems have "i \<le> j" "j < length signs" by simp_all
    from Suc.IH[OF this] wave_id_next[OF Suc.prems(2)] show ?thesis by simp
  qed
qed

lemma sign_parity:
  assumes pm: "\<forall>s \<in> set signs. s = 1 \<or> s = - 1"
  shows "j \<le> i \<Longrightarrow> i < length signs
    \<Longrightarrow> signs ! i = signs ! j
          * (- 1) ^ (wave_id_col (sign_change_col signs) ! i - wave_id_col (sign_change_col signs) ! j)"
proof (induction i)
  case 0
  then show ?case by simp
next
  case (Suc i)
  let ?w = "wave_id_col (sign_change_col signs)"
  show ?case
  proof (cases "j = Suc i")
    case True
    then show ?thesis by simp
  next
    case False
    with Suc.prems have ji: "j \<le> i" and il: "i < length signs" by simp_all
    have ih: "signs ! i = signs ! j * (- 1) ^ (?w ! i - ?w ! j)" using Suc.IH[OF ji il] .
    have mono: "?w ! j \<le> ?w ! i" using wave_id_mono[OF ji il] .
    have a: "signs ! i = 1 \<or> signs ! i = - 1" using pm il by simp
    have b: "signs ! Suc i = 1 \<or> signs ! Suc i = - 1" using pm Suc.prems(2) by simp
    have nx: "?w ! Suc i = ?w ! i + (if signs ! Suc i \<noteq> signs ! i then 1 else 0)"
      using wave_id_next[OF Suc.prems(2)] sign_flip[OF b a] by simp
    show ?thesis
    proof (cases "signs ! Suc i = signs ! i")
      case True
      then show ?thesis using nx ih by simp
    next
      case neq: False
      then have "signs ! Suc i = - (signs ! i)" using a b by auto
      moreover have "?w ! Suc i - ?w ! j = Suc (?w ! i - ?w ! j)" using nx neq mono by simp
      ultimately show ?thesis using ih by simp
    qed
  qed
qed

lemma same_wave_same_sign:
  assumes "\<forall>s \<in> set signs. s = 1 \<or> s = - 1" "i < length signs" "j < length signs"
    "wave_id_col (sign_change_col signs) ! i = wave_id_col (sign_change_col signs) ! j"
  shows "signs ! i = signs ! j"
proof (cases "j \<le> i")
  case True
  from sign_parity[OF assms(1) True assms(2)] assms(4) show ?thesis by simp
next
  case False
  then have "i \<le> j" by simp
  from sign_parity[OF assms(1) this assms(3)] assms(4) show ?thesis by simp
qed

lemma next_wave_other_sign:
  assumes "\<forall>s \<in> set signs. s = 1 \<or> s = - 1" "i < length signs" "j < length signs"
    "wave_id_col (sign_change_col signs) ! i = Suc (wave_id_col (sign_change_col signs) ! j)"
  shows "signs ! i = - (signs ! j)"
proof -
  have "j \<le> i"
  proof (rule ccontr)
    assume "\<not> j \<le> i"
    then have "i \<le> j" by simp
    from wave_id_mono[OF this assms(3)] assms(4) show False by simp
  qed
  from sign_parity[OF assms(1) this assms(2)] assms(4) show ?thesis by simp
qed

subsection \<open>The rows of the result\<close>

lemma rolling_mean_length [simp]: "length (rolling_mean w xs) = length xs"
  by (simp add: rolling_mean_def)

lemma delta_col_length [simp]: "length (delta_col self closes) = length closes"
  by (simp add: delta_col_def)

lemma id_col_length [simp]: "length (id_col self closes) = length closes"
  by (simp add: id_col_def)

lemma map_of_table:
  "map_of (map (\<lambda>k. (k, f k)) ks) k = (if k \<in> set ks then Some (f k) else None)"
  by (induction ks) auto

lemma table_lookup:
  "i < length ids \<Longrightarrow>
     map_of (wave_strength_table ids deltas) (ids ! i) = Some (strength_of (group_of ids deltas (ids ! i)))"
  by (simp add: wave_strength_table_def map_of_table)

lemma map_filter_all:
  "(\<And>x. x \<in> set xs \<Longrightarrow> f x = Some (g x)) \<Longrightarrow> List.map_filter f xs = map g xs"
  by (induction xs) simp_all

lemma generate_signals_rows:
  "generate_signals self closes =
     map (\<lambda>i.
        let r = \<lparr> short_ma = rolling_mean (short_window self) closes ! i,
                  medium_ma = rolling_mean (medium_window self) closes ! i,
                  long_ma = rolling_mean (long_window self) closes ! i,
                  signal = cross_signal (rolling_mean (short_window self) closes ! i)
                             (rolling_mean (long_window self) closes ! i),
                  diff_5_10 = delta_col self closes ! i,
                  diff_sign = sign_of (delta_col self closes ! i),
                  wave_id = id_col self closes ! i,
                  wave_strength = strength_col self closes (id_col self closes ! i),
                  prev_wave_strength =
                    (if i = 0 then None
                     else Some (strength_col self closes (id_col self closes ! (i - 1)))) \<rparr>
        in if weaker r then r\<lparr> signal := 0 \<rparr> else r)
       [0..<length closes]"
proof -
  let ?n = "length closes"
  define shorts where "shorts = rolling_mean (short_window self) closes"
  define mediums where "mediums = rolling_mean (medium_window self) closes"
  define longs where "longs = rolling_mean (long_window self) closes"
  define signals where "signals = map2 cross_signal shorts longs"
  define deltas where "deltas = map2 osub shorts mediums"
  define signs where "signs = map sign_of deltas"
  define ids where "ids = wave_id_col (sign_change_col signs)"
  define table where "table = wave_strength_table ids deltas"
  define row0 where "row0 = (\<lambda>i. \<lambda>v. \<lparr> short_ma = shorts ! i, medium_ma = mediums ! i, long_ma = longs ! i,
                      signal = signals ! i, diff_5_10 = deltas ! i, diff_sign = signs ! i,
                      wave_id = ids ! i, wave_strength = v, prev_wave_strength = None \<rparr>)"
  define merged where "merged = List.map_filter (\<lambda>i. map_option (row0 i) (map_of table (ids ! i))) [0..<?n]"
  define shifted where "shifted = map2 (\<lambda>r p. r\<lparr> prev_wave_strength := p \<rparr>)
                      merged (shift1 (map wave_strength merged))"
  have gs: "generate_signals self closes = map (\<lambda>r. if weaker r then r\<lparr> signal := 0 \<rparr> else r) shifted"
    unfolding generate_signals_def Let_def shifted_def merged_def row0_def table_def ids_def
      signs_def deltas_def signals_def longs_def mediums_def shorts_def ..
  have len: "length shorts = ?n" "length mediums = ?n" "length longs = ?n"
    "length signals = ?n" "length deltas = ?n" "length signs = ?n" "length ids = ?n"
    by (simp_all add: shorts_def mediums_def longs_def signals_def deltas_def signs_def ids_def)
  have dc: "deltas = delta_col self closes" by (simp add: deltas_def delta_col_def shorts_def mediums_def)
  have ic: "ids = id_col self closes" by (simp add: ids_def id_col_def signs_def dc)
  let ?st = "\<lambda>k. strength_of (group_of ids deltas k)"
  have st: "?st = strength_col self closes" by (simp add: strength_col_def fun_eq_iff dc ic)
  have m: "merged = map (\<lambda>i. row0 i (?st (ids ! i))) [0..<?n]"
    unfolding merged_def
    by (rule map_filter_all) (simp add: table_def table_lookup len)
  have lm: "length merged = ?n" by (simp add: m)
  have sh: "shifted = map (\<lambda>i. (row0 i (?st (ids ! i)))
              \<lparr> prev_wave_strength := (if i = 0 then None else Some (?st (ids ! (i - 1)))) \<rparr>) [0..<?n]"
  proof (rule nth_equalityI)
    show "length shifted = length (map (\<lambda>i. (row0 i (?st (ids ! i)))
              \<lparr> prev_wave_strength := (if i = 0 then None else Some (?st (ids ! (i - 1)))) \<rparr>) [0..<?n])"
      by (simp add: shifted_def lm)
  next
    fix i assume "i < length shifted"
    then have i: "i < ?n" by (simp add: shifted_def lm)
    have w: "map wave_strength merged ! (i - 1) = ?st (ids ! (i - 1))"
      using i by (simp add: m row0_def)
    have "shifted ! i = (merged ! i)\<lparr> prev_wave_strength := shift1 (map wave_strength merged) ! i \<rparr>"
      using i by (simp add: shifted_def lm)
    also have "shift1 (map wave_strength merged) ! i = (if i = 0 then None else Some (?st (ids ! (i - 1))))"
      using i w by (simp add: shift1_nth lm)
    also have "merged ! i = row0 i (?st (ids ! i))" using i by (simp add: m)
    finally show "shifted ! i = map (\<lambda>i. (row0 i (?st (ids ! i)))
              \<lparr> prev_wave_strength := (if i = 0 then None else Some (?st (ids ! (i - 1)))) \<rparr>) [0..<?n] ! i"
      using i by simp
  qed
  show ?thesis
    unfolding gs sh
    by (rule nth_equalityI)
      (simp_all add: row0_def Let_def signals_def signs_def len st[symmetric] dc[symmetric]
        ic[symmetric] shorts_def[symmetric] longs_def[symmetric] mediums_def[symmetric])
qed


lemma generate_signals_map:
  "generate_signals self closes = map (row_at self closes) [0..<length closes]"
  unfolding generate_signals_rows by (rule map_cong) (simp_all add: row_at_def)

lemma generate_signals_length [simp]:
  "length (generate_signals self closes) = length closes"
  by (simp add: generate_signals_map)

lemma generate_signals_nth:
  "i < length closes \<Longrightarrow> generate_signals self closes ! i = row_at self closes i"
  by (simp add: generate_signals_map)

lemma generate_signals_fields:
  assumes "i < length closes"
  shows "short_ma (generate_signals self closes ! i) = rolling_mean (short_window self) closes ! i"
    and "medium_ma (generate_signals self closes ! i) = rolling_mean (medium_window self) closes ! i"
    and "long_ma (generate_signals self closes ! i) = rolling_mean (long_window self) closes ! i"
    and "diff_5_10 (generate_signals self closes ! i) = delta_col self closes ! i"
    and "diff_sign (generate_signals self closes ! i) = sign_of (delta_col self closes ! i)"
    and "wave_id (generate_signals self closes ! i) = id_col self closes ! i"
    and "wave_strength (generate_signals self closes ! i)
           = strength_col self closes (id_col self closes ! i)"
    and "prev_wave_strength (generate_signals self closes ! i)
           = (if i = 0 then None
              else Some (strength_col self closes (id_col self closes ! (i - 1))))"
  unfolding generate_signals_nth[OF assms] by (simp_all add: row_at_def Let_def)

lemma generate_signals_signal:
  assumes "i < length closes"
  shows "signal (generate_signals self closes ! i)
     = (if cross (generate_signals self closes ! i) = 1
           \<and> sign_of (delta_col self closes ! i) = 1 \<and> i \<noteq> 0
           \<and> strength_col self closes (id_col self closes ! i)
               < strength_col self closes (id_col self closes ! (i - 1))
        then 0 else cross (generate_signals self closes ! i))"
  unfolding generate_signals_nth[OF assms]
  by (simp add: row_at_def Let_def weaker_def cross_def)

lemma group_of_maps:
  "group_of (map f rs) (map g rs) k = map g (filter (\<lambda>r. f r = k) rs)"
  by (induction rs) (simp_all add: group_of_def)

lemma in_group_of:
  "x \<in> set (group_of ids xs k) \<Longrightarrow> \<exists>j. j < length ids \<and> j < length xs \<and> ids ! j = k \<and> xs ! j = x"
  by (auto simp: group_of_def in_set_zip)

lemma nth_in_group_of:
  "j < length ids \<Longrightarrow> j < length xs \<Longrightarrow> xs ! j \<in> set (group_of ids xs (ids ! j))"
  by (force simp: group_of_def in_set_zip image_iff)

lemma sum_list_positive:
  fixes xs :: "rat list"
  shows "xs \<noteq> [] \<Longrightarrow> (\<And>x. x \<in> set xs \<Longrightarrow> 0 < x) \<Longrightarrow> 0 < sum_list xs"
proof (induction xs)
  case Nil
  then show ?case by simp
next
  case (Cons a xs)
  show ?case
  proof (cases xs)
    case Nil
    with Cons.prems show ?thesis by simp
  next
    case (Cons b bs)
    then have "0 < sum_list xs" using Cons.IH Cons.prems by simp
    moreover have "0 < a" using Cons.prems by simp
    ultimately show ?thesis by simp
  qed
qed

lemma strength_positive:
  assumes "g \<noteq> []" and "\<And>x. x \<in> set g \<Longrightarrow> sign_of x = 1"
  shows "0 < strength_of g"
proof -
  have "\<And>x. x \<in> set g \<Longrightarrow> 0 < (case x of None \<Rightarrow> 0 | Some v \<Rightarrow> v)"
  proof -
    fix x assume "x \<in> set g"
    then have "sign_of x = 1" by (rule assms(2))
    then show "0 < (case x of None \<Rightarrow> 0 | Some v \<Rightarrow> v)"
      by (cases x) (simp_all add: sign_of_def ogt_def split: if_splits)
  qed
  then have "0 < nansum g" unfolding nansum_def using assms(1)
    by (intro sum_list_positive) auto
  then show ?thesis by (simp add: strength_of_def)
qed

lemma strength_not_positive:
  assumes "\<And>x. x \<in> set g \<Longrightarrow> sign_of x = - 1"
  shows "strength_of g \<le> 0"
proof -
  have "\<And>x. x \<in> set g \<Longrightarrow> (case x of None \<Rightarrow> 0 | Some v \<Rightarrow> v) \<le> (0::rat)"
  proof -
    fix x assume "x \<in> set g"
    then have "sign_of x = - 1" by (rule assms)
    then show "(case x of None \<Rightarrow> 0 | Some v \<Rightarrow> v) \<le> (0::rat)"
      by (cases x) (simp_all add: sign_of_def ogt_def split: if_splits)
  qed
  then have "nansum g \<le> 0" unfolding nansum_def
    by (intro sum_list_nonpos) auto
  then show ?thesis by (simp add: strength_of_def divide_le_0_iff)
qed

lemma signs_pm: "\<forall>s \<in> set (map sign_of ds). s = 1 \<or> s = - 1"
  using sign_of_cases by auto

lemma positive_wave_strength:
  assumes "i < length closes" "sign_of (delta_col self closes ! i) = 1"
  shows "0 < strength_col self closes (id_col self closes ! i)"
  unfolding strength_col_def
proof (rule strength_positive)
  let ?ids = "id_col self closes" let ?ds = "delta_col self closes"
  have "?ds ! i \<in> set (group_of ?ids ?ds (?ids ! i))"
    using assms(1) by (intro nth_in_group_of) simp_all
  then show "group_of ?ids ?ds (?ids ! i) \<noteq> []" by auto
next
  let ?ids = "id_col self closes" let ?ds = "delta_col self closes"
  fix x assume "x \<in> set (group_of ?ids ?ds (?ids ! i))"
  then obtain j where j: "j < length closes" "?ids ! j = ?ids ! i" "?ds ! j = x"
    using in_group_of[of x ?ids ?ds] by auto
  have "map sign_of ?ds ! j = map sign_of ?ds ! i"
    using same_wave_same_sign[OF signs_pm, of j ?ds i] j(1,2) assms(1)
    by (simp add: id_col_def)
  then show "sign_of x = 1" using j assms by simp
qed

lemma preceding_wave_strength:
  assumes "i < length closes" "sign_of (delta_col self closes ! i) = 1"
    "id_col self closes ! i = Suc k"
  shows "strength_col self closes k \<le> 0"
  unfolding strength_col_def
proof (rule strength_not_positive)
  let ?ids = "id_col self closes" let ?ds = "delta_col self closes"
  fix x assume "x \<in> set (group_of ?ids ?ds k)"
  then obtain j where j: "j < length closes" "?ids ! j = k" "?ds ! j = x"
    using in_group_of[of x ?ids ?ds] by auto
  have "map sign_of ?ds ! i = - (map sign_of ?ds ! j)"
    using next_wave_other_sign[OF signs_pm, of i ?ds j] j(1,2) assms(1,3)
    by (simp add: id_col_def)
  then show "sign_of x = - 1" using j assms by simp
qed

lemma id_col_step:
  assumes "i < length closes" "i \<noteq> 0"
  shows "id_col self closes ! i =
           id_col self closes ! (i - 1)
           + (if sign_of (delta_col self closes ! i) \<noteq> sign_of (delta_col self closes ! (i - 1))
              then 1 else 0)"
proof -
  obtain j where i: "i = Suc j" using assms(2) by (cases i) simp_all
  let ?signs = "map sign_of (delta_col self closes)"
  have l: "Suc j < length ?signs" using assms(1) i by simp
  have a: "?signs ! Suc j = 1 \<or> ?signs ! Suc j = - 1" using l sign_of_cases by simp
  have b: "?signs ! j = 1 \<or> ?signs ! j = - 1" using l sign_of_cases by simp
  from wave_id_next[OF l] sign_flip[OF a b] l show ?thesis
    by (simp add: id_col_def i)
qed

lemma no_weaker_row:
  assumes "i < length closes" "sign_of (delta_col self closes ! i) = 1" "i \<noteq> 0"
  shows "\<not> strength_col self closes (id_col self closes ! i)
            < strength_col self closes (id_col self closes ! (i - 1))"
proof (cases "id_col self closes ! i = id_col self closes ! (i - 1)")
  case True
  then show ?thesis by simp
next
  case False
  then have "id_col self closes ! i = Suc (id_col self closes ! (i - 1))"
    using id_col_step[OF assms(1,3), of self] by (simp split: if_splits)
  from preceding_wave_strength[OF assms(1,2) this] positive_wave_strength[OF assms(1,2)]
  show ?thesis by simp
qed

lemma wave_average_eq:
  "wave_average (generate_signals self closes) k = strength_col self closes k"
proof -
  let ?rs = "generate_signals self closes"
  have w: "map wave_id ?rs = id_col self closes"
    by (rule nth_equalityI) (simp_all add: generate_signals_fields)
  have d: "map diff_5_10 ?rs = delta_col self closes"
    by (rule nth_equalityI) (simp_all add: generate_signals_fields)
  have g: "group_of (id_col self closes) (delta_col self closes) k
             = map diff_5_10 (wave_bars ?rs k)"
    using group_of_maps[of wave_id ?rs diff_5_10 k] by (simp add: w d wave_bars_def)
  show ?thesis
  proof (cases "wave_bars ?rs k = []")
    case True
    then show ?thesis by (simp add: wave_average_def strength_col_def g strength_of_def nansum_def)
  next
    case False
    then have "max (length (wave_bars ?rs k)) 1 = length (wave_bars ?rs k)"
      by (cases "wave_bars ?rs k") simp_all
    then show ?thesis by (simp add: wave_average_def strength_col_def g strength_of_def)
  qed
qed

lemma no_divergence:
  assumes "i < length closes"
  shows "\<not> divergence (generate_signals self closes) i"
proof
  assume d: "divergence (generate_signals self closes) i"
  let ?ids = "id_col self closes"
  from d assms have s: "sign_of (delta_col self closes ! i) = 1" and p: "0 < ?ids ! i"
    and lt: "strength_col self closes (?ids ! i) < strength_col self closes (?ids ! i - 1)"
    by (simp_all add: divergence_def generate_signals_fields wave_average_eq)
  from p have "?ids ! i = Suc (?ids ! i - 1)" by simp
  from preceding_wave_strength[OF assms s this] positive_wave_strength[OF assms s] lt
  show False by simp
qed

lemma demo_rows:
  "generate_signals quick demo =
   [\<lparr>short_ma = Some 3, medium_ma = None, long_ma = None, signal = 0,
      diff_5_10 = None, diff_sign = - 1, wave_id = 0,
      wave_strength = - (1 / 2), prev_wave_strength = None\<rparr>,
    \<lparr>short_ma = Some 1, medium_ma = Some 2, long_ma = None, signal = 0,
      diff_5_10 = Some (- 1), diff_sign = - 1, wave_id = 0,
      wave_strength = - (1 / 2), prev_wave_strength = Some (- (1 / 2))\<rparr>,
    \<lparr>short_ma = Some 4, medium_ma = Some (5 / 2), long_ma = Some (8 / 3),
      signal = 1, diff_5_10 = Some (3 / 2), diff_sign = 1, wave_id = 1,
      wave_strength = 5 / 4, prev_wave_strength = Some (- (1 / 2))\<rparr>,
    \<lparr>short_ma = Some 6, medium_ma = Some 5, long_ma = Some (11 / 3),
      signal = 1, diff_5_10 = Some 1, diff_sign = 1, wave_id = 1,
      wave_strength = 5 / 4, prev_wave_strength = Some (5 / 4)\<rparr>,
    \<lparr>short_ma = Some 5, medium_ma = Some (11 / 2), long_ma = Some 5,
      signal = 0, diff_5_10 = Some (- (1 / 2)), diff_sign = - 1, wave_id = 2,
      wave_strength = - 1, prev_wave_strength = Some (5 / 4)\<rparr>,
    \<lparr>short_ma = Some 2, medium_ma = Some (7 / 2), long_ma = Some (13 / 3),
      signal = 0, diff_5_10 = Some (- (3 / 2)), diff_sign = - 1, wave_id = 2,
      wave_strength = - 1, prev_wave_strength = Some (- 1)\<rparr>]"
  by (simp add: generate_signals_def quick_def demo_def rolling_mean_def upt_rec
      cross_signal_def ogt_def ole_def osub_def sign_of_def sign_change_col_def shift1_def
      sign_change_of_def wave_id_col_def negative_def wave_strength_table_def group_of_def
      strength_of_def nansum_def weaker_def Let_def)


lemma map_filter_defined:
  "\<forall>x \<in> set xs. f x \<noteq> None \<Longrightarrow>
     nansum (map f xs) = sum_list (List.map_filter f xs)
     \<and> length (List.map_filter f xs) = length xs"
  by (induction xs) (auto simp: nansum_def)

lemma wave_average_is_mean:
  assumes "\<forall>r \<in> set (wave_bars rs k). diff_5_10 r \<noteq> None"
  shows "wave_average rs k = wave_mean rs k"
  using map_filter_defined[OF assms] by (simp add: wave_average_def wave_mean_def Let_def)

lemma divergence_exit_never_fires:
  assumes "i < length closes"
  shows "signal (generate_signals self closes ! i) = cross (generate_signals self closes ! i)"
  using generate_signals_signal[OF assms, of self] no_weaker_row[OF assms, of self]
  by auto

lemmas row_defs = wave_bars_def wave_average_def wave_mean_def divergence_def cross_def
  cross_signal_def ogt_def ole_def osub_def nansum_def Let_def

text \<open>
  C6, as the claim states it: the strength of each wave is the mean of \<open>diff_5_10\<close>
  over the bars of the wave.  With the windows 1, 2 and 3 the first wave of the six closes
  holds the bars 0 and 1; \<open>diff_5_10\<close> is undefined on bar 0 and -1 on bar 1, so its
  mean is -1, and the strength of the wave is -1/2.
\<close>

theorem first_wave_strength_is_not_the_mean:
  "wave_id (generate_signals quick demo ! 1) = 0
   \<and> map diff_5_10 (wave_bars (generate_signals quick demo) 0) = [None, Some (- 1)]
   \<and> wave_strength (generate_signals quick demo ! 1) = - (1 / 2)
   \<and> wave_mean (generate_signals quick demo) 0 = - 1
   \<and> wave_strength (generate_signals quick demo ! 1) \<noteq> wave_mean (generate_signals quick demo) 0"
  by (simp add: demo_rows row_defs)


text \<open>
  C6, amended.  On every bar \<open>i\<close> of the result: the wave id is 0 on the first bar and
  goes up by one exactly when the sign of \<open>diff_5_10 = short_ma - medium_ma\<close> differs
  from the sign of the bar before; the strength of the wave is the sum of the defined
  values of \<open>diff_5_10\<close> on the bars of the wave over the number of these bars, which
  is their mean when \<open>diff_5_10\<close> is defined on all of them; and the signal is 0
  instead of the long signal 1 of the cross exactly when the sign is positive and the
  strength of the wave is below the strength of the wave before.
\<close>

theorem wave_divergence_policy:
  assumes "rs = generate_signals self closes" and "i < length closes"
  shows "wave_id (rs ! i)
           = (if i = 0 then 0
              else wave_id (rs ! (i - 1))
                   + (if diff_sign (rs ! i) \<noteq> diff_sign (rs ! (i - 1)) then 1 else 0))
       \<and> diff_sign (rs ! i) = (if ogt (diff_5_10 (rs ! i)) (Some 0) then 1 else - 1)
       \<and> diff_5_10 (rs ! i) = osub (short_ma (rs ! i)) (medium_ma (rs ! i))
       \<and> wave_strength (rs ! i) = wave_average rs (wave_id (rs ! i))
       \<and> ((\<forall>r \<in> set (wave_bars rs (wave_id (rs ! i))). diff_5_10 r \<noteq> None)
            \<longrightarrow> wave_strength (rs ! i) = wave_mean rs (wave_id (rs ! i)))
       \<and> signal (rs ! i) = (if cross (rs ! i) = 1 \<and> divergence rs i then 0 else cross (rs ! i))"
proof -
  note f = generate_signals_fields[OF assms(2), of self]
  have c1: "wave_id (rs ! i)
           = (if i = 0 then 0
              else wave_id (rs ! (i - 1))
                   + (if diff_sign (rs ! i) \<noteq> diff_sign (rs ! (i - 1)) then 1 else 0))"
  proof (cases "i = 0")
    case True
    have "delta_col self closes \<noteq> []"
    proof
      assume e: "delta_col self closes = []"
      have "length (delta_col self closes) = length closes" by simp
      then show False using assms(2) unfolding e by simp
    qed
    then have "map sign_of (delta_col self closes) \<noteq> []" by simp
    from wave_id_first[OF this] True have "id_col self closes ! i = 0"
      by (simp add: id_col_def)
    moreover have "wave_id (rs ! i) = id_col self closes ! i" unfolding assms(1) by (rule f)
    ultimately show ?thesis using True by simp
  next
    case False
    then have p: "i - 1 < length closes" using assms(2) by simp
    note g = generate_signals_fields[OF p, of self]
    have w: "wave_id (rs ! i) = id_col self closes ! i"
      and s: "diff_sign (rs ! i) = sign_of (delta_col self closes ! i)"
      unfolding assms(1) by (rule f)+
    have w': "wave_id (rs ! (i - 1)) = id_col self closes ! (i - 1)"
      and s': "diff_sign (rs ! (i - 1)) = sign_of (delta_col self closes ! (i - 1))"
      unfolding assms(1) by (rule g)+
    from id_col_step[OF assms(2) False, of self] False show ?thesis
      unfolding w w' s s' by simp
  qed
  have c2: "diff_sign (rs ! i) = (if ogt (diff_5_10 (rs ! i)) (Some 0) then 1 else - 1)"
    by (simp add: assms(1) f sign_of_def)
  have c3: "diff_5_10 (rs ! i) = osub (short_ma (rs ! i)) (medium_ma (rs ! i))"
    using assms(2) by (simp add: assms(1) f delta_col_def)
  have c4: "wave_strength (rs ! i) = wave_average rs (wave_id (rs ! i))"
    by (simp add: assms(1) f wave_average_eq)
  have c5: "(\<forall>r \<in> set (wave_bars rs (wave_id (rs ! i))). diff_5_10 r \<noteq> None)
            \<longrightarrow> wave_strength (rs ! i) = wave_mean rs (wave_id (rs ! i))"
    using c4 wave_average_is_mean by simp
  have c6: "signal (rs ! i) = (if cross (rs ! i) = 1 \<and> divergence rs i then 0 else cross (rs ! i))"
    using divergence_exit_never_fires[OF assms(2), of self] no_divergence[OF assms(2), of self]
    by (simp add: assms(1))
  from c1 c2 c3 c4 c5 c6 show ?thesis by blast
qed

text \<open>
  Bar 2 of the six closes opens the second wave: the sign turns positive, the strength
  5/4 is the mean of 3/2 and 1, and the long signal stays.
\<close>

theorem wave_divergence_policy_witness:
  "2 < length demo
   \<and> wave_id (generate_signals quick demo ! 1) = 0
   \<and> diff_sign (generate_signals quick demo ! 1) = - 1
   \<and> diff_sign (generate_signals quick demo ! 2) = 1
   \<and> wave_id (generate_signals quick demo ! 2) = 1
   \<and> diff_5_10 (generate_signals quick demo ! 2) = Some (3 / 2)
   \<and> map diff_5_10 (wave_bars (generate_signals quick demo) 1) = [Some (3 / 2), Some 1]
   \<and> wave_strength (generate_signals quick demo ! 2) = 5 / 4
   \<and> wave_average (generate_signals quick demo) 1 = 5 / 4
   \<and> wave_mean (generate_signals quick demo) 1 = 5 / 4
   \<and> cross (generate_signals quick demo ! 2) = 1
   \<and> \<not> divergence (generate_signals quick demo) 2
   \<and> signal (generate_signals quick demo ! 2) = 1"
proof -
  have l: "2 < length demo" by (simp add: demo_def)
  have d: "\<forall>r \<in> set (wave_bars (generate_signals quick demo) 1). diff_5_10 r \<noteq> None"
    by (simp add: demo_rows wave_bars_def del: not_None_eq)
  have nd: "\<not> divergence (generate_signals quick demo) 2"
    by (simp add: demo_rows row_defs)
  from wave_divergence_policy[OF refl l, of quick] d nd l
  show ?thesis by (simp add: demo_rows row_defs del: not_None_eq)
qed


end
